theory Spec2Isabelle
  imports Main
begin

section \<open>Go values shared by the source files\<close>

text \<open>
  A Go byte slice and a Go string are both sequences of bytes; \<open>char\<close> is a byte.
\<close>

type_synonym bytes = string

text \<open>
  A Go \<open>error\<close> is observed in two ways by the source: it is compared with a
  package-level sentinel (\<open>err == ErrNotFound\<close>, \<open>err == sql.ErrNoRows\<close>,
  \<open>err == core.ErrNotFound\<close>) and its text is read (\<open>err.Error()\<close>).
  \<open>Errorf s\<close> is any other error value, with text \<open>s\<close>.
  The texts of the sentinels are declared outside the source files at hand, so
  \<open>error_Error\<close> takes them as the parameter \<open>st\<close>.
\<close>

datatype error = ErrNotFound | ErrNoRows | CoreErrNotFound | Errorf string

fun error_Error :: "(error \<Rightarrow> string) \<Rightarrow> error \<Rightarrow> string" where
  "error_Error st (Errorf s) = s"
| "error_Error st e = st e"

subsection \<open>time.Time\<close>

text \<open>
  A \<open>time.Time\<close> is an instant (nanoseconds since the zero time) shown in a
  location. \<open>time.Now()\<close> reads the clock in the location \<open>Local\<close>;
  \<open>t.In(time.UTC)\<close> is the same instant shown in UTC. \<open>t.Round(d)\<close> is the nearest
  multiple of \<open>d\<close>, halfway values rounding up; \<open>t.Truncate(d)\<close> rounds down.
  The zero \<open>Time\<close> is instant 0 in UTC.
\<close>

datatype Location = Local | UTC

record Time =
  instant :: int
  loc :: Location

definition Second :: int where
  "Second = 1000000000"

definition time_Now :: "int \<Rightarrow> Time" where
  "time_Now clock = \<lparr>instant = clock, loc = Local\<rparr>"

definition Round :: "Time \<Rightarrow> int \<Rightarrow> Time" where
  "Round t d =
     (if d \<le> 0 then t
      else let r = instant t mod d
           in if r + r < d then t\<lparr>instant := instant t - r\<rparr>
              else t\<lparr>instant := instant t + (d - r)\<rparr>)"

definition Truncate :: "Time \<Rightarrow> int \<Rightarrow> Time" where
  "Truncate t d = (if d \<le> 0 then t else t\<lparr>instant := instant t - instant t mod d\<rparr>)"

definition In :: "Time \<Rightarrow> Location \<Rightarrow> Time" where
  "In t l = t\<lparr>loc := l\<rparr>"

definition zero_Time :: Time where
  "zero_Time = \<lparr>instant = 0, loc = UTC\<rparr>"

subsection \<open>Payload values\<close>

text \<open>
  The payload \<open>Meta\<close> is a \<open>map[string]interface{}\<close>. Its values are modelled by
  their JSON shape; \<open>None\<close> is the nil map, which Go tells apart from the empty map.
\<close>

typedecl float64

datatype jvalue =
    JNull
  | JBool bool
  | JNumber float64
  | JString string
  | JArray "jvalue list"
  | JObject "string \<Rightarrow> jvalue option"

type_synonym payload = "(string \<Rightarrow> jvalue option) option"

section \<open>metadata.go: the metadata ledger\<close>

record Metadata =
  Hash :: string
  Timestamp :: Time
  KeyId :: string
  Subject :: string
  Prev :: string
  Meta :: payload

text \<open>The anonymous struct of \<open>HashableBytes\<close>: five fields, no \<open>hash\<close>.\<close>

record hashable =
  hTimestamp :: Time
  hKeyId :: string
  hSubject :: string
  hPrev :: string
  hMeta :: payload

text \<open>A row of the table \<open>metadata\<close>, in the column order of \<open>metadataCols\<close>.\<close>

record sql_row =
  col_hash :: string
  col_time_stamp :: Time
  col_key_id :: string
  col_subject :: string
  col_prev :: string
  col_meta :: "bytes option"

text \<open>The statements the source passes to \<open>db.Exec\<close>, with their arguments.\<close>

datatype stmt =
    InsertMetadata sql_row
  | InsertArchiveRequest Time string string

text \<open>The entity \<open>Url\<close>, with the fields the source reads or sets.\<close>

record Url =
  uUrl :: string
  uHash :: string
  uTitle :: string

definition zero_Metadata :: Metadata where
  "zero_Metadata =
     \<lparr>Hash = '''', Timestamp = zero_Time, KeyId = '''', Subject = '''', Prev = '''',
      Meta = None\<rparr>"

subsection \<open>CalcHash\<close>

text \<open>\<open>hex.EncodeToString\<close>: two lower-case hexadecimal digits for each byte.\<close>

definition hexdigit :: "nat \<Rightarrow> char" where
  "hexdigit n = ''0123456789abcdef'' ! (n mod 16)"

fun hex_EncodeToString :: "bytes \<Rightarrow> string" where
  "hex_EncodeToString [] = []"
| "hex_EncodeToString (c # cs) =
     hexdigit (of_char c div 16) # hexdigit (of_char c mod 16) # hex_EncodeToString cs"

text \<open>
  \<open>sha\<close> is \<open>sha256.New(); h.Write(data); h.Sum(nil)\<close> and \<open>mh\<close> is
  \<open>multihash.EncodeName\<close>; both are libraries outside the repository.
\<close>

definition CalcHash ::
  "(bytes \<Rightarrow> bytes) \<Rightarrow> (bytes \<Rightarrow> string \<Rightarrow> error + bytes) \<Rightarrow> bytes \<Rightarrow> string \<times> error option"
where
  "CalcHash sha mh data =
     (case mh (sha data) ''sha2-256'' of
        Inl err \<Rightarrow> ('''', Some err)
      | Inr mhBuf \<Rightarrow> (hex_EncodeToString mhBuf, None))"

subsection \<open>LatestMetadata and NextMetadata\<close>

text \<open>
  \<open>scan\<close> is the outcome of \<open>row.Scan\<close> on the row the query returned;
  \<open>unm\<close> is \<open>json.Unmarshal\<close> into a \<open>map[string]interface{}\<close>. The receiver is
  overwritten only when both succeed.
\<close>

definition UnmarshalSQL ::
  "(bytes \<Rightarrow> error + payload) \<Rightarrow> error + sql_row \<Rightarrow> Metadata \<Rightarrow> error option \<times> Metadata"
where
  "UnmarshalSQL unm scan m =
     (case scan of
        Inl err \<Rightarrow> (if err = ErrNoRows then (Some ErrNotFound, m) else (Some err, m))
      | Inr r \<Rightarrow>
          (case (case col_meta r of
                   None \<Rightarrow> Inr None
                 | Some metaBytes \<Rightarrow> unm metaBytes) of
             Inl err \<Rightarrow> (Some err, m)
           | Inr meta \<Rightarrow>
               (None,
                \<lparr>Hash = col_hash r, Timestamp = col_time_stamp r, KeyId = col_key_id r,
                 Subject = col_subject r, Prev = col_prev r, Meta = meta\<rparr>)))"

text \<open>
  \<open>query db keyId subject\<close> is \<open>db.QueryRow\<close> of the select ordered by
  \<open>time_stamp desc\<close>, followed by the scan of its row.
\<close>

definition LatestMetadata ::
  "(bytes \<Rightarrow> error + payload) \<Rightarrow> ('db \<Rightarrow> string \<Rightarrow> string \<Rightarrow> error + sql_row) \<Rightarrow>
   'db \<Rightarrow> string \<Rightarrow> string \<Rightarrow> Metadata \<times> error option"
where
  "LatestMetadata unm query db keyId subject =
     (case UnmarshalSQL unm (query db keyId subject) zero_Metadata of
        (err, m) \<Rightarrow> (m, err))"

text \<open>The result is Go's pair of a pointer (\<open>None\<close> is nil) and an error.\<close>

definition NextMetadata ::
  "(bytes \<Rightarrow> error + payload) \<Rightarrow> ('db \<Rightarrow> string \<Rightarrow> string \<Rightarrow> error + sql_row) \<Rightarrow>
   'db \<Rightarrow> string \<Rightarrow> string \<Rightarrow> Metadata option \<times> error option"
where
  "NextMetadata unm query db keyId subject =
     (case LatestMetadata unm query db keyId subject of
        (m, Some err) \<Rightarrow>
          (if err = ErrNotFound
           then (Some (zero_Metadata\<lparr>KeyId := keyId, Subject := subject,
                                      Meta := Some Map.empty\<rparr>), None)
           else (None, Some err))
      | (m, None) \<Rightarrow>
          (Some (zero_Metadata\<lparr>KeyId := KeyId m, Subject := Subject m, Prev := Hash m,
                                Meta := Meta m\<rparr>), None))"

subsection \<open>HashableBytes, calcHash and Write\<close>

text \<open>\<open>jmh\<close> is \<open>json.Marshal\<close> at the type of the anonymous struct.\<close>

definition HashableBytes :: "(hashable \<Rightarrow> error + bytes) \<Rightarrow> Metadata \<Rightarrow> error + bytes" where
  "HashableBytes jmh m =
     jmh \<lparr>hTimestamp = Timestamp m, hKeyId = KeyId m, hSubject = Subject m,
          hPrev = Prev m, hMeta = Meta m\<rparr>"

definition calcHash ::
  "(bytes \<Rightarrow> bytes) \<Rightarrow> (bytes \<Rightarrow> string \<Rightarrow> error + bytes) \<Rightarrow> (hashable \<Rightarrow> error + bytes) \<Rightarrow>
   Metadata \<Rightarrow> error option \<times> Metadata"
where
  "calcHash sha mh jmh m =
     (case HashableBytes jmh m of
        Inl err \<Rightarrow> (Some err, m)
      | Inr data \<Rightarrow>
          (case mh (sha data) ''sha2-256'' of
             Inl err \<Rightarrow> (Some err, m)
           | Inr mhBuf \<Rightarrow> (None, m\<lparr>Hash := hex_EncodeToString mhBuf\<rparr>)))"

text \<open>
  \<open>m.Meta["title"].(string)\<close>: a lookup in a nil map finds nothing, and the type
  assertion holds for a string value only.
\<close>

definition title_string :: "payload \<Rightarrow> string option" where
  "title_string meta =
     (case meta of
        None \<Rightarrow> None
      | Some mp \<Rightarrow> (case mp ''title'' of Some (JString str) \<Rightarrow> Some str | _ \<Rightarrow> None))"

text \<open>
  A goroutine started by \<open>Write\<close>: the closure holds the string \<open>str\<close> (and the
  pointer \<open>m\<close>, read when the goroutine runs).
\<close>

datatype task = TitleProjection string

text \<open>
  \<open>Write\<close> returns its error, the record behind the pointer \<open>m\<close>, the database
  and the goroutines it started. \<open>jmm\<close> is \<open>json.Marshal\<close> of the payload,
  \<open>exec\<close> is \<open>db.Exec\<close>, \<open>clock\<close> is the instant \<open>time.Now()\<close> reads.
\<close>

definition Write ::
  "(bytes \<Rightarrow> bytes) \<Rightarrow> (bytes \<Rightarrow> string \<Rightarrow> error + bytes) \<Rightarrow> (hashable \<Rightarrow> error + bytes) \<Rightarrow>
   (payload \<Rightarrow> error + bytes) \<Rightarrow> ('db \<Rightarrow> stmt \<Rightarrow> error option \<times> 'db) \<Rightarrow> int \<Rightarrow>
   Metadata \<Rightarrow> 'db \<Rightarrow> error option \<times> Metadata \<times> 'db \<times> task list"
where
  "Write sha mh jmh jmm exec clock m db =
     (let m1 = m\<lparr>Timestamp := Round (time_Now clock) Second\<rparr> in
      case calcHash sha mh jmh m1 of
        (Some err, m2) \<Rightarrow> (Some err, m2, db, [])
      | (None, m2) \<Rightarrow>
          (case jmm (Meta m2) of
             Inl err \<Rightarrow> (Some err, m2, db, [])
           | Inr metaBytes \<Rightarrow>
               (case exec db (InsertMetadata
                        \<lparr>col_hash = Hash m2,
                         col_time_stamp = Round (In (Timestamp m2) UTC) Second,
                         col_key_id = KeyId m2, col_subject = Subject m2,
                         col_prev = Prev m2, col_meta = Some metaBytes\<rparr>) of
                  (err, db') \<Rightarrow>
                    (err, m2, db',
                     (case title_string (Meta m2) of
                        Some str \<Rightarrow> if str \<noteq> '''' then [TitleProjection str] else []
                      | None \<Rightarrow> [])))))"

text \<open>
  The body of the goroutine: read the entity of the subject, set its title, update
  it; an error is logged and ends the goroutine. \<open>read\<close> is \<open>u.Read(db)\<close> and
  \<open>update\<close> is \<open>u.Update(db)\<close>.
\<close>

definition run_task ::
  "(error \<Rightarrow> string) \<Rightarrow> ('db \<Rightarrow> Url \<Rightarrow> error + Url) \<Rightarrow> ('db \<Rightarrow> Url \<Rightarrow> error option \<times> 'db) \<Rightarrow>
   task \<Rightarrow> Metadata \<Rightarrow> 'db \<times> string list \<Rightarrow> 'db \<times> string list"
where
  "run_task st read update t m s =
     (case t of TitleProjection str \<Rightarrow>
        (case s of (db, logged) \<Rightarrow>
           (case read db \<lparr>uUrl = '''', uHash = Subject m, uTitle = ''''\<rparr> of
              Inl err \<Rightarrow> (db, logged @ [error_Error st err])
            | Inr u \<Rightarrow>
                (case update db (u\<lparr>uTitle := str\<rparr>) of
                   (Some err, db') \<Rightarrow> (db', logged @ [error_Error st err])
                 | (None, db') \<Rightarrow> (db', logged)))))"

section \<open>The connection actor and the dispatch of actions\<close>

subsection \<open>Effects\<close>

text \<open>
  The effects of a run, in the order the source performs them: \<open>c.send <- data\<close>
  is \<open>Sent data\<close>, a line given to the logger is \<open>Logged\<close>, \<open>time.Sleep\<close> is
  \<open>Slept\<close>, the policy query is \<open>Queried\<close>, \<open>db.Exec\<close> is \<open>Executed\<close>, the
  three operations of the content store on an entity are \<open>ReadUrl\<close>, \<open>SavedUrl\<close>
  and \<open>GotUrl\<close>, a call of the completion callback is \<open>DoneCalled\<close>,
  \<open>c.hub.unregister <- c\<close> is \<open>Unregistered\<close> and \<open>c.conn.Close()\<close> is \<open>Closed\<close>.
  The send channel is read off the trace: its messages are the \<open>Sent\<close> events. A
  send on a full channel waits for the writer; the trace records the send once it is
  done. \<open>world\<close> is the state of the collaborators (database, content store).
\<close>

datatype event =
    Sent bytes
  | Logged string
  | Slept int
  | Queried string
  | Executed stmt
  | ReadUrl Url
  | SavedUrl Url
  | GotUrl Url
  | DoneCalled "error option"
  | Unregistered
  | Closed

record 'w sys =
  trace :: "event list"
  world :: 'w

definition emit :: "event \<Rightarrow> 'w sys \<Rightarrow> 'w sys" where
  "emit e s = s\<lparr>trace := trace s @ [e]\<rparr>"

subsection \<open>Envelopes\<close>

text \<open>The anonymous struct that \<open>HandleAction\<close> decodes a message into.\<close>

record action =
  aType :: string
  aRequestId :: string
  aSilentError :: bool
  aData :: bytes

text \<open>
  Modelled from the spec: \<open>ClientResponse\<close>, the outbound envelope, is declared outside
  the source files at hand; the fields are those of the wire protocol
  \<open>{Type, RequestId, Error, Schema, Data, SilentError}\<close>. \<open>Data\<close> is an
  \<open>interface{}\<close>, \<open>None\<close> when nil.
\<close>

record 'd ClientResponse =
  Type :: string
  RequestId :: string
  Error :: string
  Schema :: string
  Data :: "'d option"
  SilentError :: bool

text \<open>
  An entry of the registry \<open>ClientReqActions\<close> (declared outside the source files at
  hand): \<open>t.Type()\<close> is its type name; \<open>t.Parse(reqId, data)\<close> is a request, given
  here by its method \<open>Exec\<close>, which acts on the collaborators and returns a response.
\<close>

record ('w, 'd) ClientReqAction =
  tType :: string
  tParse :: "string \<Rightarrow> bytes \<Rightarrow> 'w \<Rightarrow> 'd ClientResponse \<times> 'w"

subsection \<open>SendResponse, HandleRequestAction, HandleAction\<close>

text \<open>\<open>strings.HasSuffix\<close>.\<close>

definition HasSuffix :: "string \<Rightarrow> string \<Rightarrow> bool" where
  "HasSuffix s suffix =
     (length suffix \<le> length s \<and> drop (length s - length suffix) s = suffix)"

text \<open>
  \<open>jm\<close> is \<open>json.Marshal\<close> at the type \<open>ClientResponse\<close>. A response that fails
  to marshal is logged and not sent.
\<close>

definition SendResponse ::
  "(error \<Rightarrow> string) \<Rightarrow> ('d ClientResponse \<Rightarrow> error + bytes) \<Rightarrow> 'd ClientResponse \<Rightarrow>
   'w sys \<Rightarrow> 'w sys"
where
  "SendResponse st jm res s =
     (case jm res of
        Inl err \<Rightarrow> emit (Logged (error_Error st err)) s
      | Inr data \<Rightarrow> emit (Sent data) s)"

fun HandleRequestAction ::
  "(error \<Rightarrow> string) \<Rightarrow> ('d ClientResponse \<Rightarrow> error + bytes) \<Rightarrow>
   ('w, 'd) ClientReqAction list \<Rightarrow> string \<Rightarrow> string \<Rightarrow> bool \<Rightarrow> bytes \<Rightarrow> 'w sys \<Rightarrow> 'w sys"
where
  "HandleRequestAction st jm [] req reqId silentError data s = s"
| "HandleRequestAction st jm (t # ts) req reqId silentError data s =
     (if tType t = req
      then (case tParse t reqId data (world s) of
              (res, w) \<Rightarrow>
                HandleRequestAction st jm ts req reqId silentError data
                  (SendResponse st jm (res\<lparr>SilentError := silentError\<rparr>) (s\<lparr>world := w\<rparr>)))
      else HandleRequestAction st jm ts req reqId silentError data s)"

text \<open>\<open>unm\<close> is \<open>json.Unmarshal\<close> into the struct \<open>action\<close>.\<close>

definition HandleAction ::
  "(error \<Rightarrow> string) \<Rightarrow> (bytes \<Rightarrow> error + action) \<Rightarrow> ('d ClientResponse \<Rightarrow> error + bytes) \<Rightarrow>
   ('w, 'd) ClientReqAction list \<Rightarrow> bytes \<Rightarrow> 'w sys \<Rightarrow> 'w sys"
where
  "HandleAction st unm jm reg data s =
     (case unm data of
        Inl err \<Rightarrow>
          SendResponse st jm
            \<lparr>Type = ''PARSE_ERROR'', RequestId = '''',
             Error = ''action parsing error type: '' @ error_Error st err,
             Schema = '''', Data = None, SilentError = False\<rparr>
            (emit (Logged (''error parsing action JSON: '' @ error_Error st err)) s)
      | Inr a \<Rightarrow>
          if HasSuffix (aType a) ''REQUEST''
          then HandleRequestAction st jm reg (aType a) (aRequestId a) (aSilentError a) (aData a)
                 (emit (Logged (aRequestId a @ '': '' @ aType a)) s)
          else emit (Logged (''unrecognized action: '' @ aType a)) s)"

subsection \<open>readPump\<close>

text \<open>
  The read loop, run on the outcomes of the successive \<open>c.conn.ReadMessage()\<close>: a
  message is handled and the loop reads on; a read error closes the connection, leaves
  the loop, and the deferred function unregisters the client and closes again. With the
  outcomes at hand used up, the loop is waiting in the next read. \<open>unexpected\<close> is
  \<open>websocket.IsUnexpectedCloseError(err, websocket.CloseGoingAway)\<close> and
  \<open>close_err\<close> what \<open>c.conn.Close()\<close> returns in the loop.
\<close>

datatype incoming = Message bytes | ReadFailed error

fun readPump ::
  "(error \<Rightarrow> string) \<Rightarrow> (bytes \<Rightarrow> error + action) \<Rightarrow> ('d ClientResponse \<Rightarrow> error + bytes) \<Rightarrow>
   ('w, 'd) ClientReqAction list \<Rightarrow> (error \<Rightarrow> bool) \<Rightarrow> error option \<Rightarrow> incoming list \<Rightarrow>
   'w sys \<Rightarrow> 'w sys"
where
  "readPump st unm jm reg unexpected close_err [] s = s"
| "readPump st unm jm reg unexpected close_err (ReadFailed err # rest) s =
     (let s1 = (if unexpected err then emit (Logged (''error: '' @ error_Error st err)) s
                else s);
          s2 = emit Closed s1;
          s3 = (case close_err of
                  Some e \<Rightarrow> emit (Logged (''close connection error: '' @ error_Error st e)) s2
                | None \<Rightarrow> s2)
      in emit Closed (emit Unregistered s3))"
| "readPump st unm jm reg unexpected close_err (Message data # rest) s =
     readPump st unm jm reg unexpected close_err rest (HandleAction st unm jm reg data s)"

section \<open>The crawl orchestrator\<close>

text \<open>A \<open>core.Link\<close>, with the field the source reads: the destination entity.\<close>

record Link =
  Dst :: Url

text \<open>What the orchestrator puts in the field \<open>Data\<close> of a response.\<close>

datatype data =
    DataUrl Url
  | DataLinks "Link list"
  | DataMap "string \<Rightarrow> jvalue option"

text \<open>
  The collaborators of the orchestrator, all outside the repository's source files at
  hand. \<open>policy_exists\<close> is the \<open>select exists(...)\<close> over the table
  \<open>subprimers\<close> with its scan; \<open>db_Exec\<close> is \<open>db.Exec\<close>; \<open>ParsedUrl\<close>,
  \<open>store_Read\<close>, \<open>store_Save\<close> and \<open>store_Get\<close> are the methods of \<open>core.Url\<close>,
  which may change the entity they are called on; \<open>store_Get\<close> also returns the
  outbound links. \<open>clock_reading\<close> is the instant \<open>time.Now()\<close> reads and
  \<open>LinksSuccessType\<close> is \<open>FetchOutboundLinksAct{}.SuccessType()\<close>.
\<close>

record 'w env =
  errtext :: "error \<Rightarrow> string"
  marshal :: "data ClientResponse \<Rightarrow> error + bytes"
  clock_reading :: int
  policy_exists :: "'w \<Rightarrow> string \<Rightarrow> error + bool"
  db_Exec :: "'w \<Rightarrow> stmt \<Rightarrow> error option \<times> 'w"
  ParsedUrl :: "Url \<Rightarrow> error option"
  store_Read :: "'w \<Rightarrow> Url \<Rightarrow> error option \<times> Url"
  store_Save :: "'w \<Rightarrow> Url \<Rightarrow> error option \<times> Url \<times> 'w"
  store_Get :: "'w \<Rightarrow> Url \<Rightarrow> Link list \<times> error option \<times> Url \<times> 'w"
  LinksSuccessType :: string

subsection \<open>ValidArchivingUrl\<close>

definition ValidArchivingUrl :: "'w env \<Rightarrow> string \<Rightarrow> 'w sys \<Rightarrow> error option \<times> 'w sys" where
  "ValidArchivingUrl E url s =
     (case policy_exists E (world s) url of
        Inl err \<Rightarrow> (Some err, emit (Queried url) s)
      | Inr exists \<Rightarrow>
          if \<not> exists
          then (Some (Errorf (''Oops! Only urls contained in subprimers can be archived. cannot archive '' @ url)),
                emit (Queried url) s)
          else (None, emit (Queried url) s))"

subsection \<open>The method \<open>Client.ArchiveUrl\<close>\<close>

text \<open>
  The block the method repeats at each failure: log the error, send a response
  \<open>URL_ARCHIVE_ERROR\<close> with the given text.
\<close>

definition archive_failed :: "'w env \<Rightarrow> string \<Rightarrow> error \<Rightarrow> string \<Rightarrow> 'w sys \<Rightarrow> 'w sys" where
  "archive_failed E reqId err text s =
     SendResponse (errtext E) (marshal E)
       \<lparr>Type = ''URL_ARCHIVE_ERROR'', RequestId = reqId, Error = text, Schema = '''',
        Data = None, SilentError = False\<rparr>
       (emit (Logged (error_Error (errtext E) err)) s)"

text \<open>
  The block both variants share: read the entity; when it is not found, save it. The
  result is the error that ends the request, if any, and the entity.
\<close>

definition resolve_entity :: "'w env \<Rightarrow> Url \<Rightarrow> 'w sys \<Rightarrow> error option \<times> Url \<times> 'w sys" where
  "resolve_entity E u s =
     (case store_Read E (world s) u of
        (Some err, u1) \<Rightarrow>
          if err = CoreErrNotFound
          then (case store_Save E (world s) u1 of
                  (err', u2, w) \<Rightarrow> (err', u2, (emit (SavedUrl u1) (emit (ReadUrl u) s))\<lparr>world := w\<rparr>))
          else (Some err, u1, emit (ReadUrl u) s)
      | (None, u1) \<Rightarrow> (None, u1, emit (ReadUrl u) s))"

text \<open>
  The goroutine of the throttled variant, one link after the other: sleep, announce the
  load, fetch the destination, announce the outcome.
\<close>

fun crawl_links :: "'w env \<Rightarrow> Link list \<Rightarrow> 'w sys \<Rightarrow> 'w sys" where
  "crawl_links E [] s = s"
| "crawl_links E (l # ls) s =
     (let s1 = emit (Slept (3 * Second)) s;
          s2 = SendResponse (errtext E) (marshal E)
                 \<lparr>Type = ''URL_SET_LOADING'', RequestId = ''server'', Error = '''', Schema = '''',
                  Data = Some (DataMap [''url'' \<mapsto> JString (uUrl (Dst l)),
                                        ''loading'' \<mapsto> JBool True]),
                  SilentError = False\<rparr> s1
      in case store_Get E (world s2) (Dst l) of
           (links, err, dst, w) \<Rightarrow>
             (let s3 = (emit (GotUrl (Dst l)) s2)\<lparr>world := w\<rparr>;
                  s4 = (case err of
                          Some e \<Rightarrow>
                            SendResponse (errtext E) (marshal E)
                              \<lparr>Type = ''URL_SET_ERROR'', RequestId = ''server'', Error = '''',
                               Schema = '''',
                               Data = Some (DataMap [''url'' \<mapsto> JString (uUrl dst),
                                        ''error'' \<mapsto> JString (error_Error (errtext E) e)]),
                               SilentError = False\<rparr>
                              (emit (Logged (error_Error (errtext E) e)) s3)
                        | None \<Rightarrow> s3);
                  s5 = SendResponse (errtext E) (marshal E)
                         \<lparr>Type = ''URL_SET_SUCCESS'', RequestId = ''server'', Error = '''',
                          Schema = '''',
                          Data = Some (DataMap [''url'' \<mapsto> JString (uUrl dst),
                                        ''success'' \<mapsto> JBool True]),
                          SilentError = False\<rparr> s4
              in crawl_links E ls s5))"

text \<open>
  The method returns the state it leaves and, when it comes to that, the links its
  goroutine is started on.
\<close>

definition Client_ArchiveUrl ::
  "'w env \<Rightarrow> string \<Rightarrow> string \<Rightarrow> 'w sys \<Rightarrow> 'w sys \<times> Link list option"
where
  "Client_ArchiveUrl E reqId url s =
     (case ValidArchivingUrl E url s of
        (Some err, s1) \<Rightarrow> (archive_failed E reqId err (error_Error (errtext E) err) s1, None)
      | (None, s1) \<Rightarrow>
          (let ins = InsertArchiveRequest (In (Round (time_Now (clock_reading E)) Second) UTC) url ''''
           in case db_Exec E (world s1) ins of
                (Some err, w) \<Rightarrow>
                  (archive_failed E reqId err (error_Error (errtext E) err)
                     ((emit (Executed ins) s1)\<lparr>world := w\<rparr>), None)
              | (None, w) \<Rightarrow>
                  (let s2 = emit (Logged (''archiving %s'' @ url))
                              ((emit (Executed ins) s1)\<lparr>world := w\<rparr>);
                       u = \<lparr>uUrl = url, uHash = '''', uTitle = ''''\<rparr>
                   in case ParsedUrl E u of
                        Some err \<Rightarrow>
                          (archive_failed E reqId err
                             (''url parse error: '' @ error_Error (errtext E) err) s2, None)
                      | None \<Rightarrow>
                          (case resolve_entity E u s2 of
                             (Some err, u1, s3) \<Rightarrow>
                               (archive_failed E reqId err ''internal server error'' s3, None)
                           | (None, u1, s3) \<Rightarrow>
                               (let s4 = SendResponse (errtext E) (marshal E)
                                           \<lparr>Type = ''URL_ARCHIVE_SUCCESS'', RequestId = reqId,
                                            Error = '''', Schema = ''URL'',
                                            Data = Some (DataUrl u1), SilentError = False\<rparr> s3
                                in case store_Get E (world s4) u1 of
                                     (links, Some err, u2, w') \<Rightarrow>
                                       (archive_failed E reqId err (error_Error (errtext E) err)
                                          ((emit (GotUrl u1) s4)\<lparr>world := w'\<rparr>), None)
                                   | (links, None, u2, w') \<Rightarrow>
                                       (SendResponse (errtext E) (marshal E)
                                          \<lparr>Type = LinksSuccessType E, RequestId = ''server'',
                                           Error = '''', Schema = ''LINK_ARRAY'',
                                           Data = Some (DataLinks links), SilentError = False\<rparr>
                                          ((emit (GotUrl u1) s4)\<lparr>world := w'\<rparr>),
                                        Some links))))))"

subsection \<open>The function \<open>ArchiveUrl\<close>\<close>

text \<open>
  The first goroutine of the batch variant: fetch each destination, log a failure, send
  \<open>nil\<close> on the channel \<open>errs\<close>, sleep. The channel is the list of the values sent and
  not yet received; it is made with room for one value for each link, so no send waits.
\<close>

fun fetch_links ::
  "'w env \<Rightarrow> Link list \<Rightarrow> error option list \<times> 'w sys \<Rightarrow> error option list \<times> 'w sys"
where
  "fetch_links E [] (errs, s) = (errs, s)"
| "fetch_links E (l # ls) (errs, s) =
     (case store_Get E (world s) (Dst l) of
        (links, err, dst, w) \<Rightarrow>
          (let s1 = (emit (GotUrl (Dst l)) s)\<lparr>world := w\<rparr>;
               s2 = (case err of
                       Some e \<Rightarrow> emit (Logged (error_Error (errtext E) e)) s1
                     | None \<Rightarrow> s1)
           in fetch_links E ls (errs @ [None], emit (Slept (3 * Second)) s2)))"

text \<open>
  The second goroutine: receive \<open>tasks\<close> values; the first that is an error goes to
  \<open>done\<close> and ends the goroutine; after the last, \<open>done(nil)\<close>. A receive on an
  empty channel that nobody sends on any more waits for ever: \<open>done\<close> is not called.
\<close>

fun aggregate :: "nat \<Rightarrow> error option list \<Rightarrow> 'w sys \<Rightarrow> error option list \<times> 'w sys" where
  "aggregate 0 errs s = (errs, emit (DoneCalled None) s)"
| "aggregate (Suc n) [] s = ([], s)"
| "aggregate (Suc n) (err # errs) s =
     (case err of
        Some e \<Rightarrow> (errs, emit (DoneCalled (Some e)) s)
      | None \<Rightarrow> aggregate n errs s)"

text \<open>
  \<open>ArchiveUrl\<close> returns Go's triple (the nil slice is the empty list), the state it
  leaves, and, when it starts its two goroutines, the links and \<open>tasks\<close>.
\<close>

definition ArchiveUrl ::
  "'w env \<Rightarrow> string \<Rightarrow> 'w sys \<Rightarrow>
   (Url option \<times> Link list \<times> error option) \<times> 'w sys \<times> (Link list \<times> nat) option"
where
  "ArchiveUrl E url s =
     (let u = \<lparr>uUrl = url, uHash = '''', uTitle = ''''\<rparr>
      in case ParsedUrl E u of
           Some err \<Rightarrow> ((None, [], Some err), emit (DoneCalled (Some err)) s, None)
         | None \<Rightarrow>
             (case resolve_entity E u s of
                (Some err, u1, s1) \<Rightarrow>
                  ((None, [], Some err), emit (DoneCalled (Some err)) s1, None)
              | (None, u1, s1) \<Rightarrow>
                  (case store_Get E (world s1) u1 of
                     (links, Some err, u2, w) \<Rightarrow>
                       ((Some u2, links, Some err),
                        emit (DoneCalled (Some err)) ((emit (GotUrl u1) s1)\<lparr>world := w\<rparr>), None)
                   | (links, None, u2, w) \<Rightarrow>
                       ((Some u2, links, None), (emit (GotUrl u1) s1)\<lparr>world := w\<rparr>,
                        Some (links, length links)))))"

text \<open>
  Both goroutines run to their end: the second receives, in order, what the first sends.
\<close>

definition run_goroutines ::
  "'w env \<Rightarrow> Link list \<Rightarrow> nat \<Rightarrow> 'w sys \<Rightarrow> error option list \<times> 'w sys"
where
  "run_goroutines E links tasks s =
     (case fetch_links E links ([], s) of (errs, s1) \<Rightarrow> aggregate tasks errs s1)"

text \<open>The arguments of the calls of \<open>done\<close> in a trace, in order.\<close>

fun done_calls :: "event list \<Rightarrow> error option list" where
  "done_calls [] = []"
| "done_calls (DoneCalled r # es) = r # done_calls es"
| "done_calls (e # es) = done_calls es"

section \<open>Stand-ins for the external collaborators\<close>

text \<open>
  Concrete libraries, databases and records on which the definitions above are evaluated.
\<close>

definition plain_sha :: "bytes \<Rightarrow> bytes" where
  "plain_sha data = data"

definition plain_mh :: "bytes \<Rightarrow> string \<Rightarrow> error + bytes" where
  "plain_mh digest name = Inr digest"

definition keyid_json :: "hashable \<Rightarrow> error + bytes" where
  "keyid_json h = Inr (hKeyId h)"

definition braces_json :: "payload \<Rightarrow> error + bytes" where
  "braces_json p = Inr ''{}''"

definition log_exec :: "stmt list \<Rightarrow> stmt \<Rightarrow> error option \<times> stmt list" where
  "log_exec db s = (None, db @ [s])"

definition fail_exec :: "stmt list \<Rightarrow> stmt \<Rightarrow> error option \<times> stmt list" where
  "fail_exec db s = (Some (Errorf ''insert failed''), db)"

definition unsupported_json :: "hashable \<Rightarrow> error + bytes" where
  "unsupported_json h = Inl (Errorf ''json: unsupported value'')"

definition titled :: Metadata where
  "titled = \<lparr>Hash = ''old'', Timestamp = zero_Time, KeyId = ''k'', Subject = ''s'', Prev = '''',
     Meta = Some [''title'' \<mapsto> JString ''T'']\<rparr>"

definition null_json :: "bytes \<Rightarrow> error + payload" where
  "null_json b = Inr None"

definition no_rows :: "unit \<Rightarrow> string \<Rightarrow> string \<Rightarrow> error + sql_row" where
  "no_rows db keyId subject = Inl ErrNoRows"

definition db_down :: "unit \<Rightarrow> string \<Rightarrow> string \<Rightarrow> error + sql_row" where
  "db_down db keyId subject = Inl (Errorf ''connection refused'')"

definition head_row :: "unit \<Rightarrow> string \<Rightarrow> string \<Rightarrow> error + sql_row" where
  "head_row db keyId subject =
     Inr \<lparr>col_hash = ''6b'', col_time_stamp = \<lparr>instant = 63635596801000000000, loc = UTC\<rparr>,
          col_key_id = keyId, col_subject = subject, col_prev = '''', col_meta = None\<rparr>"

definition sentinel_text :: "error \<Rightarrow> string" where
  "sentinel_text e = ''sentinel''"

definition line_json :: "'d ClientResponse \<Rightarrow> error + bytes" where
  "line_json r =
     Inr (Type r @ ''|'' @ RequestId r @ ''|'' @ Error r @ (if SilentError r then ''|silent'' else ''''))"

definition truncated_json :: "bytes \<Rightarrow> error + action" where
  "truncated_json b = Inl (Errorf ''unexpected end of JSON input'')"

definition fixed_json :: "string \<Rightarrow> bytes \<Rightarrow> error + action" where
  "fixed_json ty b = Inr \<lparr>aType = ty, aRequestId = ''r1'', aSilentError = True, aData = b\<rparr>"

definition counting :: "string \<Rightarrow> string \<Rightarrow> (nat, unit) ClientReqAction" where
  "counting ty answer =
     \<lparr>tType = ty,
      tParse = (\<lambda>reqId data w.
        (\<lparr>Type = answer, RequestId = reqId, Error = '''', Schema = '''', Data = None,
          SilentError = False\<rparr>, Suc w))\<rparr>"

definition registry :: "(nat, unit) ClientReqAction list" where
  "registry =
     [counting ''ECHO_REQUEST'' ''FIRST'', counting ''REQUEST_DONE'' ''OTHER'',
      counting ''ECHO_REQUEST'' ''SECOND'']"

definition idle :: "nat sys" where
  "idle = \<lparr>trace = [], world = 0\<rparr>"

definition url_json :: "data ClientResponse \<Rightarrow> error + bytes" where
  "url_json r =
     Inr (Type r @ ''|'' @ RequestId r @ ''|'' @ Error r @
          (case Data r of
             Some (DataMap mp) \<Rightarrow> (case mp ''url'' of Some (JString u) \<Rightarrow> ''|'' @ u | _ \<Rightarrow> '''')
           | _ \<Rightarrow> ''''))"

definition page :: "string \<Rightarrow> Url" where
  "page url = \<lparr>uUrl = url, uHash = '''', uTitle = ''''\<rparr>"

definition site :: "nat env" where
  "site =
     \<lparr>errtext = sentinel_text,
      marshal = url_json,
      clock_reading = 63635596800500000000,
      policy_exists = (\<lambda>w url. Inr (url = ''http://example.com/x'')),
      db_Exec = (\<lambda>w q. (None, Suc w)),
      ParsedUrl = (\<lambda>u. None),
      store_Read = (\<lambda>w u. (Some CoreErrNotFound, u)),
      store_Save = (\<lambda>w u. (None, u, Suc w)),
      store_Get = (\<lambda>w u.
        if uUrl u = ''http://example.com/x''
        then ([\<lparr>Dst = page ''http://example.com/bad''\<rparr>, \<lparr>Dst = page ''http://example.com/good''\<rparr>],
              None, u, Suc w)
        else if uUrl u = ''http://example.com/bad''
        then ([], Some (Errorf ''timeout''), u, w)
        else ([], None, u, Suc w)),
      LinksSuccessType = ''LINKS''\<rparr>"

section \<open>Properties of the metadata ledger\<close>

subsection \<open>What a run of \<open>Write\<close> leaves behind\<close>

lemma Write_record:
  "fst (snd (Write sha mh jmh jmm exec clock m db)) =
     snd (calcHash sha mh jmh (m\<lparr>Timestamp := Round (time_Now clock) Second\<rparr>))"
  by (simp add: Write_def Let_def split: prod.splits option.splits sum.splits)

lemma Write_success:
  assumes "Write sha mh jmh jmm exec clock m db = (None, m', db', sp)"
  obtains data mhBuf metaBytes where
    "HashableBytes jmh (m\<lparr>Timestamp := Round (time_Now clock) Second\<rparr>) = Inr data"
    "mh (sha data) ''sha2-256'' = Inr mhBuf"
    "m' = m\<lparr>Timestamp := Round (time_Now clock) Second, Hash := hex_EncodeToString mhBuf\<rparr>"
    "jmm (Meta m) = Inr metaBytes"
    "exec db (InsertMetadata
        \<lparr>col_hash = Hash m', col_time_stamp = Round (In (Timestamp m') UTC) Second,
         col_key_id = KeyId m', col_subject = Subject m', col_prev = Prev m',
         col_meta = Some metaBytes\<rparr>) = (None, db')"
    "sp = (case title_string (Meta m) of
             Some str \<Rightarrow> if str \<noteq> '''' then [TitleProjection str] else []
           | None \<Rightarrow> [])"
proof -
  let ?m1 = "m\<lparr>Timestamp := Round (time_Now clock) Second\<rparr>"
  from assms obtain data where d: "HashableBytes jmh ?m1 = Inr data"
    by (cases "HashableBytes jmh ?m1") (simp_all add: Write_def calcHash_def)
  from assms d obtain mhBuf where b: "mh (sha data) ''sha2-256'' = Inr mhBuf"
    by (cases "mh (sha data) ''sha2-256''") (simp_all add: Write_def calcHash_def)
  let ?m2 = "?m1\<lparr>Hash := hex_EncodeToString mhBuf\<rparr>"
  have c: "calcHash sha mh jmh ?m1 = (None, ?m2)"
    using d b by (simp add: calcHash_def)
  from assms c obtain metaBytes where j: "jmm (Meta m) = Inr metaBytes"
    by (cases "jmm (Meta m)") (simp_all add: Write_def)
  from assms c j have "m' = ?m2"
    by (simp add: Write_def split: prod.splits)
  moreover from assms c j have
    "exec db (InsertMetadata
        \<lparr>col_hash = Hash ?m2, col_time_stamp = Round (In (Timestamp ?m2) UTC) Second,
         col_key_id = KeyId ?m2, col_subject = Subject ?m2, col_prev = Prev ?m2,
         col_meta = Some metaBytes\<rparr>) = (None, db')"
    by (simp add: Write_def split: prod.splits)
  moreover from assms c j have
    "sp = (case title_string (Meta m) of
             Some str \<Rightarrow> if str \<noteq> '''' then [TitleProjection str] else []
           | None \<Rightarrow> [])"
    by (simp add: Write_def split: prod.splits)
  ultimately show thesis
    using that [of data mhBuf metaBytes] d b j by simp
qed

text \<open>
  Claim C1. When \<open>Write\<close> returns no error, the record it leaves has as \<open>Hash\<close> the
  output of \<open>CalcHash\<close> (sha2-256 multihash, hex-encoded) on the JSON serialization of the
  struct of exactly its five fields timestamp, keyId, subject, prev and meta; that hash is the
  first column of the row handed to the insert; and the hash the record held before plays no
  part: the run from the same record with any other \<open>Hash\<close> gives the same result.
\<close>

theorem Write_hash_of_five_fields:
  assumes "Write sha mh jmh jmm exec clock m db = (None, m', db', sp)"
  shows "\<exists>data metaBytes.
           jmh \<lparr>hTimestamp = Timestamp m', hKeyId = KeyId m', hSubject = Subject m',
                hPrev = Prev m', hMeta = Meta m'\<rparr> = Inr data
         \<and> CalcHash sha mh data = (Hash m', None)
         \<and> jmm (Meta m') = Inr metaBytes
         \<and> exec db (InsertMetadata
              \<lparr>col_hash = Hash m', col_time_stamp = Round (In (Timestamp m') UTC) Second,
               col_key_id = KeyId m', col_subject = Subject m', col_prev = Prev m',
               col_meta = Some metaBytes\<rparr>) = (None, db')
         \<and> Write sha mh jmh jmm exec clock (m\<lparr>Hash := h\<rparr>) db = (None, m', db', sp)"
proof -
  from assms obtain data mhBuf metaBytes where
    d: "HashableBytes jmh (m\<lparr>Timestamp := Round (time_Now clock) Second\<rparr>) = Inr data" and
    b: "mh (sha data) ''sha2-256'' = Inr mhBuf" and
    m': "m' = m\<lparr>Timestamp := Round (time_Now clock) Second, Hash := hex_EncodeToString mhBuf\<rparr>" and
    j: "jmm (Meta m) = Inr metaBytes" and
    e: "exec db (InsertMetadata
        \<lparr>col_hash = Hash m', col_time_stamp = Round (In (Timestamp m') UTC) Second,
         col_key_id = KeyId m', col_subject = Subject m', col_prev = Prev m',
         col_meta = Some metaBytes\<rparr>) = (None, db')" and
    s: "sp = (case title_string (Meta m) of
             Some str \<Rightarrow> if str \<noteq> '''' then [TitleProjection str] else []
           | None \<Rightarrow> [])"
    by (rule Write_success)
  have 1: "jmh \<lparr>hTimestamp = Timestamp m', hKeyId = KeyId m', hSubject = Subject m',
                hPrev = Prev m', hMeta = Meta m'\<rparr> = Inr data"
    using d m' by (simp add: HashableBytes_def)
  have 2: "CalcHash sha mh data = (Hash m', None)"
    using b m' by (simp add: CalcHash_def)
  have 3: "jmm (Meta m') = Inr metaBytes"
    using j m' by simp
  have 4: "Write sha mh jmh jmm exec clock (m\<lparr>Hash := h\<rparr>) db = (None, m', db', sp)"
    using d b j e s m' by (simp add: Write_def calcHash_def HashableBytes_def)
  from 1 2 3 e 4 show ?thesis by blast
qed

text \<open>A run that persists a row, with stand-ins for the libraries and the database.\<close>

theorem Write_hash_of_five_fields_witness:
  "Write plain_sha plain_mh keyid_json braces_json log_exec 63635596800500000000 titled [] =
     (None,
      \<lparr>Hash = ''6b'', Timestamp = \<lparr>instant = 63635596801000000000, loc = Local\<rparr>, KeyId = ''k'',
       Subject = ''s'', Prev = '''', Meta = Some [''title'' \<mapsto> JString ''T'']\<rparr>,
      [InsertMetadata
         \<lparr>col_hash = ''6b'', col_time_stamp = \<lparr>instant = 63635596801000000000, loc = UTC\<rparr>,
          col_key_id = ''k'', col_subject = ''s'', col_prev = '''', col_meta = Some ''{}''\<rparr>],
      [TitleProjection ''T''])
   \<and> CalcHash plain_sha plain_mh ''k'' = (''6b'', None)
   \<and> Write plain_sha plain_mh keyid_json braces_json log_exec 63635596800500000000
         (titled\<lparr>Hash := ''other''\<rparr>) [] =
       Write plain_sha plain_mh keyid_json braces_json log_exec 63635596800500000000 titled []"
proof -
  have w: "Write plain_sha plain_mh keyid_json braces_json log_exec 63635596800500000000 titled [] =
     (None,
      \<lparr>Hash = ''6b'', Timestamp = \<lparr>instant = 63635596801000000000, loc = Local\<rparr>, KeyId = ''k'',
       Subject = ''s'', Prev = '''', Meta = Some [''title'' \<mapsto> JString ''T'']\<rparr>,
      [InsertMetadata
         \<lparr>col_hash = ''6b'', col_time_stamp = \<lparr>instant = 63635596801000000000, loc = UTC\<rparr>,
          col_key_id = ''k'', col_subject = ''s'', col_prev = '''', col_meta = Some ''{}''\<rparr>],
      [TitleProjection ''T''])"
    by (simp add: Write_def calcHash_def HashableBytes_def titled_def plain_sha_def
        plain_mh_def keyid_json_def braces_json_def log_exec_def time_Now_def Round_def
        Second_def In_def title_string_def hexdigit_def Let_def)
  from Write_hash_of_five_fields [OF w, of "''other''"] w
  show ?thesis
    by (auto simp: keyid_json_def)
qed

subsection \<open>The next record of a chain\<close>

lemma LatestMetadata_no_rows:
  "query db keyId subject = Inl ErrNoRows \<Longrightarrow>
     LatestMetadata unm query db keyId subject = (zero_Metadata, Some ErrNotFound)"
  by (simp add: LatestMetadata_def UnmarshalSQL_def)

text \<open>
  Claim C2. When the lookup \<open>LatestMetadata\<close> reports \<open>ErrNotFound\<close>, \<open>NextMetadata\<close>
  returns a fresh record with the given keyId and subject, empty prev and an empty payload
  map; when the lookup returns a head \<open>H\<close>, it returns a record with the keyId, subject and
  meta of \<open>H\<close> and with prev equal to the hash of \<open>H\<close>; any other lookup error is returned
  as the error, with no record.
\<close>

theorem NextMetadata_cases:
  "(LatestMetadata unm query db keyId subject = (m, Some ErrNotFound) \<longrightarrow>
      NextMetadata unm query db keyId subject =
        (Some \<lparr>Hash = '''', Timestamp = zero_Time, KeyId = keyId, Subject = subject,
               Prev = '''', Meta = Some Map.empty\<rparr>, None))
   \<and> (LatestMetadata unm query db keyId subject = (H, None) \<longrightarrow>
      NextMetadata unm query db keyId subject =
        (Some \<lparr>Hash = '''', Timestamp = zero_Time, KeyId = KeyId H, Subject = Subject H,
               Prev = Hash H, Meta = Meta H\<rparr>, None))
   \<and> (LatestMetadata unm query db keyId subject = (m, Some err) \<and> err \<noteq> ErrNotFound \<longrightarrow>
      NextMetadata unm query db keyId subject = (None, Some err))"
proof (intro conjI impI)
  assume "LatestMetadata unm query db keyId subject = (m, Some ErrNotFound)"
  then show "NextMetadata unm query db keyId subject =
        (Some \<lparr>Hash = '''', Timestamp = zero_Time, KeyId = keyId, Subject = subject,
               Prev = '''', Meta = Some Map.empty\<rparr>, None)"
    by (simp add: NextMetadata_def zero_Metadata_def)
next
  assume "LatestMetadata unm query db keyId subject = (H, None)"
  then show "NextMetadata unm query db keyId subject =
        (Some \<lparr>Hash = '''', Timestamp = zero_Time, KeyId = KeyId H, Subject = Subject H,
               Prev = Hash H, Meta = Meta H\<rparr>, None)"
    by (simp add: NextMetadata_def zero_Metadata_def)
next
  assume "LatestMetadata unm query db keyId subject = (m, Some err) \<and> err \<noteq> ErrNotFound"
  then show "NextMetadata unm query db keyId subject = (None, Some err)"
    by (simp add: NextMetadata_def)
qed

text \<open>The three cases: no row, a head row, a failing database.\<close>

theorem NextMetadata_cases_witness:
  "LatestMetadata null_json no_rows () ''k'' ''s'' = (zero_Metadata, Some ErrNotFound)
   \<and> NextMetadata null_json no_rows () ''k'' ''s'' =
        (Some \<lparr>Hash = '''', Timestamp = zero_Time, KeyId = ''k'', Subject = ''s'',
               Prev = '''', Meta = Some Map.empty\<rparr>, None)
   \<and> LatestMetadata null_json head_row () ''k'' ''s'' =
        (\<lparr>Hash = ''6b'', Timestamp = \<lparr>instant = 63635596801000000000, loc = UTC\<rparr>, KeyId = ''k'',
          Subject = ''s'', Prev = '''', Meta = None\<rparr>, None)
   \<and> NextMetadata null_json head_row () ''k'' ''s'' =
        (Some \<lparr>Hash = '''', Timestamp = zero_Time, KeyId = ''k'', Subject = ''s'',
               Prev = ''6b'', Meta = None\<rparr>, None)
   \<and> LatestMetadata null_json db_down () ''k'' ''s'' =
        (zero_Metadata, Some (Errorf ''connection refused''))
   \<and> NextMetadata null_json db_down () ''k'' ''s'' = (None, Some (Errorf ''connection refused''))"
proof -
  have a: "LatestMetadata null_json no_rows () ''k'' ''s'' = (zero_Metadata, Some ErrNotFound)"
    by (simp add: LatestMetadata_def UnmarshalSQL_def no_rows_def)
  have b: "LatestMetadata null_json head_row () ''k'' ''s'' =
        (\<lparr>Hash = ''6b'', Timestamp = \<lparr>instant = 63635596801000000000, loc = UTC\<rparr>, KeyId = ''k'',
          Subject = ''s'', Prev = '''', Meta = None\<rparr>, None)"
    by (simp add: LatestMetadata_def UnmarshalSQL_def head_row_def)
  have c: "LatestMetadata null_json db_down () ''k'' ''s'' =
        (zero_Metadata, Some (Errorf ''connection refused''))"
    by (simp add: LatestMetadata_def UnmarshalSQL_def db_down_def)
  from a b c
    NextMetadata_cases [of null_json no_rows "()" "''k''" "''s''" zero_Metadata]
    NextMetadata_cases [of null_json head_row "()" "''k''" "''s''" _
      "\<lparr>Hash = ''6b'', Timestamp = \<lparr>instant = 63635596801000000000, loc = UTC\<rparr>, KeyId = ''k'',
        Subject = ''s'', Prev = '''', Meta = None\<rparr>"]
    NextMetadata_cases [of null_json db_down "()" "''k''" "''s''" zero_Metadata _
      "Errorf ''connection refused''"]
  show ?thesis by simp
qed

subsection \<open>The timestamp of a written record\<close>

text \<open>
  Claim C3 as stated: the timestamp that \<open>Write\<close> stamps, and that enters the hash, is the
  current time truncated to the second and expressed in UTC. Instants are nanoseconds since
  the zero time; with the clock half a second past 02:40:00 UTC on 14 July 2017 the record
  is stamped with 02:40:01 in the location \<open>Local\<close>, where truncation in UTC gives
  02:40:00 in UTC.
\<close>

theorem Write_timestamp_not_truncated_utc:
  "Timestamp (fst (snd (Write plain_sha plain_mh keyid_json braces_json log_exec 63635596800500000000
                          titled []))) = \<lparr>instant = 63635596801000000000, loc = Local\<rparr>
   \<and> In (Truncate (time_Now 63635596800500000000) Second) UTC = \<lparr>instant = 63635596800000000000, loc = UTC\<rparr>
   \<and> Timestamp (fst (snd (Write plain_sha plain_mh keyid_json braces_json log_exec 63635596800500000000
                          titled []))) \<noteq> In (Truncate (time_Now 63635596800500000000) Second) UTC"
  by (simp add: Write_def calcHash_def HashableBytes_def titled_def plain_sha_def
        plain_mh_def keyid_json_def braces_json_def log_exec_def time_Now_def Round_def
        Truncate_def Second_def In_def title_string_def Let_def)

lemma calcHash_Timestamp: "Timestamp (snd (calcHash sha mh jmh m)) = Timestamp m"
  by (simp add: calcHash_def split: sum.splits)

lemma Round_Second:
  "instant (Round t Second) mod Second = 0 \<and> loc (Round t Second) = loc t \<and>
   2 * \<bar>instant (Round t Second) - instant t\<bar> \<le> Second"
proof -
  have "instant t mod 1000000000 < 1000000000" "0 \<le> instant t mod 1000000000"
    by simp_all
  moreover have "(instant t - instant t mod 1000000000) mod 1000000000 = 0"
    by (simp add: minus_mod_eq_mult_div)
  moreover have "(instant t + (1000000000 - instant t mod 1000000000)) mod 1000000000 = 0"
    by (metis add_diff_eq diff_add_eq minus_mod_eq_mult_div mod_mult_self4 mod_self)
  ultimately show ?thesis
    by (auto simp: Round_def Second_def Let_def)
qed

text \<open>
  Claim C3, amended. \<open>Write\<close> stamps the record with the current time rounded to the
  nearest second (halfway values up), in the location of the clock, before it computes the
  hash: the record it leaves is the result of \<open>calcHash\<close> on the record so stamped, so
  this rounded local value is the timestamp that enters the hashed serialization. The stamp
  is a whole number of seconds at most half a second from the clock. The conversion to UTC
  is applied to the timestamp column of the inserted row only: on a run that reaches the
  insert, the statement handed to \<open>db.Exec\<close>, whatever \<open>db.Exec\<close> is, is the insert of
  the row whose timestamp column is the instant of the stamp in UTC.
\<close>

theorem Write_stamps_rounded_clock:
  "fst (snd (Write sha mh jmh jmm exec clock m db)) =
     snd (calcHash sha mh jmh (m\<lparr>Timestamp := Round (time_Now clock) Second\<rparr>))
   \<and> Timestamp (fst (snd (Write sha mh jmh jmm exec clock m db))) =
       Round (time_Now clock) Second
   \<and> loc (Timestamp (fst (snd (Write sha mh jmh jmm exec clock m db)))) = Local
   \<and> instant (Timestamp (fst (snd (Write sha mh jmh jmm exec clock m db)))) mod Second = 0
   \<and> 2 * \<bar>instant (Timestamp (fst (snd (Write sha mh jmh jmm exec clock m db)))) - clock\<bar>
       \<le> Second
   \<and> Round (In (Timestamp (fst (snd (Write sha mh jmh jmm exec clock m db)))) UTC) Second =
       \<lparr>instant = instant (Timestamp (fst (snd (Write sha mh jmh jmm exec clock m db)))),
        loc = UTC\<rparr>
   \<and> (calcHash sha mh jmh (m\<lparr>Timestamp := Round (time_Now clock) Second\<rparr>) = (None, hashed)
        \<and> jmm (Meta m) = Inr metaBytes \<longrightarrow>
      Write sha mh jmh jmm exec clock m db =
        (case exec db (InsertMetadata
                 \<lparr>col_hash = Hash hashed,
                  col_time_stamp =
                    \<lparr>instant = instant (Round (time_Now clock) Second), loc = UTC\<rparr>,
                  col_key_id = KeyId m, col_subject = Subject m, col_prev = Prev m,
                  col_meta = Some metaBytes\<rparr>) of
           (err, db') \<Rightarrow>
             (err, hashed, db',
              (case title_string (Meta m) of
                 Some str \<Rightarrow> if str \<noteq> '''' then [TitleProjection str] else []
               | None \<Rightarrow> []))))"
proof -
  let ?t = "Round (time_Now clock) Second"
  have r: "fst (snd (Write sha mh jmh jmm exec clock m db)) =
     snd (calcHash sha mh jmh (m\<lparr>Timestamp := ?t\<rparr>))"
    by (rule Write_record)
  have t: "Timestamp (fst (snd (Write sha mh jmh jmm exec clock m db))) = ?t"
    by (simp add: r calcHash_Timestamp)
  have p: "instant ?t mod Second = 0" "loc ?t = Local" "2 * \<bar>instant ?t - clock\<bar> \<le> Second"
    using Round_Second [of "time_Now clock"] by (simp_all add: time_Now_def)
  have u: "Round (In ?t UTC) Second = \<lparr>instant = instant ?t, loc = UTC\<rparr>"
    using p(1) by (simp add: Round_def In_def Second_def Let_def)
  have i: "Write sha mh jmh jmm exec clock m db =
        (case exec db (InsertMetadata
                 \<lparr>col_hash = Hash hashed,
                  col_time_stamp = \<lparr>instant = instant ?t, loc = UTC\<rparr>,
                  col_key_id = KeyId m, col_subject = Subject m, col_prev = Prev m,
                  col_meta = Some metaBytes\<rparr>) of
           (err, db') \<Rightarrow>
             (err, hashed, db',
              (case title_string (Meta m) of
                 Some str \<Rightarrow> if str \<noteq> '''' then [TitleProjection str] else []
               | None \<Rightarrow> [])))"
    if c: "calcHash sha mh jmh (m\<lparr>Timestamp := ?t\<rparr>) = (None, hashed)"
      and j: "jmm (Meta m) = Inr metaBytes"
  proof -
    have f: "Meta hashed = Meta m" "KeyId hashed = KeyId m" "Subject hashed = Subject m"
      "Prev hashed = Prev m" "Timestamp hashed = ?t"
      using c by (auto simp: calcHash_def split: sum.splits)
    show ?thesis
      using c j f u by (simp add: Write_def)
  qed
  show ?thesis
    using r t p u i by simp
qed

text \<open>
  A run that reaches the insert: the record is stamped with 02:40:01 in the location
  \<open>Local\<close>, the row handed to the database carries 02:40:01 in UTC.
\<close>

theorem Write_stamps_rounded_clock_witness:
  "calcHash plain_sha plain_mh keyid_json
     (titled\<lparr>Timestamp := Round (time_Now 63635596800500000000) Second\<rparr>) =
     (None, titled\<lparr>Timestamp := \<lparr>instant = 63635596801000000000, loc = Local\<rparr>,
                   Hash := ''6b''\<rparr>)
   \<and> braces_json (Meta titled) = Inr ''{}''
   \<and> Write plain_sha plain_mh keyid_json braces_json log_exec 63635596800500000000 titled [] =
       (None,
        titled\<lparr>Timestamp := \<lparr>instant = 63635596801000000000, loc = Local\<rparr>, Hash := ''6b''\<rparr>,
        [InsertMetadata
           \<lparr>col_hash = ''6b'',
            col_time_stamp = \<lparr>instant = 63635596801000000000, loc = UTC\<rparr>,
            col_key_id = ''k'', col_subject = ''s'', col_prev = '''',
            col_meta = Some ''{}''\<rparr>],
        [TitleProjection ''T''])"
proof -
  have c: "calcHash plain_sha plain_mh keyid_json
     (titled\<lparr>Timestamp := Round (time_Now 63635596800500000000) Second\<rparr>) =
     (None, titled\<lparr>Timestamp := \<lparr>instant = 63635596801000000000, loc = Local\<rparr>,
                   Hash := ''6b''\<rparr>)"
    by (simp add: calcHash_def HashableBytes_def titled_def plain_sha_def plain_mh_def
        keyid_json_def time_Now_def Round_def Second_def hexdigit_def Let_def)
  have j: "braces_json (Meta titled) = Inr ''{}''"
    by (simp add: braces_json_def)
  have v: "instant (Round (time_Now 63635596800500000000) Second) = 63635596801000000000"
    by (simp add: time_Now_def Round_def Second_def Let_def)
  from Write_stamps_rounded_clock
         [where sha = plain_sha and mh = plain_mh and jmh = keyid_json and jmm = braces_json
            and exec = log_exec and clock = 63635596800500000000 and m = titled and db = "[]"
            and hashed = "titled\<lparr>Timestamp := \<lparr>instant = 63635596801000000000, loc = Local\<rparr>,
                             Hash := ''6b''\<rparr>"
            and metaBytes = "''{}''"] c j v
  show ?thesis
    by (simp add: log_exec_def titled_def title_string_def)
qed

subsection \<open>The title projection\<close>

text \<open>
  Claim C10 as stated: whenever the payload has a non-empty string under \<open>title\<close>,
  \<open>Write\<close> starts the title projection and returns the error of the insert. When
  \<open>json.Marshal\<close> refuses the struct to hash, \<open>Write\<close> returns that error at once: the
  payload has the title \<open>T\<close>, yet no statement reaches the database, the error returned
  is not one of the insert, and no goroutine is started.
\<close>

theorem Write_titled_unserializable_no_spawn:
  "title_string (Meta titled) = Some ''T''
   \<and> Write plain_sha plain_mh unsupported_json braces_json log_exec 63635596800500000000
         titled [] =
       (Some (Errorf ''json: unsupported value''),
        titled\<lparr>Timestamp := \<lparr>instant = 63635596801000000000, loc = Local\<rparr>\<rparr>,
        [], [])"
  by (simp add: Write_def calcHash_def HashableBytes_def titled_def unsupported_json_def
      time_Now_def Round_def Second_def title_string_def Let_def)

text \<open>
  Claim C10, amended. On a run of \<open>Write\<close> that reaches the insert (the hash is computed
  and the payload serializes) for a record whose payload has a non-empty string under
  \<open>title\<close>, the goroutine of the title projection is started whatever the insert
  returns, and the error \<open>Write\<close> returns is the error of the insert. \<open>exec\<close> is
  arbitrary here: it may fail.
\<close>

theorem Write_spawns_regardless_of_insert:
  assumes "calcHash sha mh jmh (m\<lparr>Timestamp := Round (time_Now clock) Second\<rparr>) = (None, m2)"
    and "jmm (Meta m) = Inr metaBytes"
    and "title_string (Meta m) = Some str"
    and "str \<noteq> ''''"
  shows "snd (snd (snd (Write sha mh jmh jmm exec clock m db))) = [TitleProjection str]
       \<and> fst (Write sha mh jmh jmm exec clock m db) =
           fst (exec db (InsertMetadata
                  \<lparr>col_hash = Hash m2,
                   col_time_stamp = Round (In (Timestamp m2) UTC) Second,
                   col_key_id = KeyId m, col_subject = Subject m, col_prev = Prev m,
                   col_meta = Some metaBytes\<rparr>))"
proof -
  have f: "Meta m2 = Meta m" "KeyId m2 = KeyId m" "Subject m2 = Subject m" "Prev m2 = Prev m"
    using assms(1) by (auto simp: calcHash_def split: sum.splits)
  show ?thesis
    using assms f by (simp add: Write_def split: prod.splits)
qed

text \<open>A run whose insert fails: the projection is started and the insert's error returned.\<close>

theorem Write_spawns_regardless_of_insert_witness:
  "calcHash plain_sha plain_mh keyid_json (titled\<lparr>Timestamp := Round (time_Now 63635596800500000000) Second\<rparr>)
     = (None, titled\<lparr>Timestamp := \<lparr>instant = 63635596801000000000, loc = Local\<rparr>, Hash := ''6b''\<rparr>)
   \<and> braces_json (Meta titled) = Inr ''{}''
   \<and> title_string (Meta titled) = Some ''T''
   \<and> Write plain_sha plain_mh keyid_json braces_json fail_exec 63635596800500000000 titled [] =
       (Some (Errorf ''insert failed''),
        titled\<lparr>Timestamp := \<lparr>instant = 63635596801000000000, loc = Local\<rparr>, Hash := ''6b''\<rparr>, [],
        [TitleProjection ''T''])"
proof -
  have c: "calcHash plain_sha plain_mh keyid_json
             (titled\<lparr>Timestamp := Round (time_Now 63635596800500000000) Second\<rparr>)
     = (None, titled\<lparr>Timestamp := \<lparr>instant = 63635596801000000000, loc = Local\<rparr>, Hash := ''6b''\<rparr>)"
    by (simp add: calcHash_def HashableBytes_def titled_def plain_sha_def plain_mh_def
        keyid_json_def time_Now_def Round_def Second_def hexdigit_def Let_def)
  have j: "braces_json (Meta titled) = Inr ''{}''"
    by (simp add: braces_json_def)
  have t: "title_string (Meta titled) = Some ''T''"
    by (simp add: title_string_def titled_def)
  have n: "''T'' \<noteq> ''''" by simp
  have r: "fst (snd (Write plain_sha plain_mh keyid_json braces_json fail_exec 63635596800500000000 titled []))
      = titled\<lparr>Timestamp := \<lparr>instant = 63635596801000000000, loc = Local\<rparr>, Hash := ''6b''\<rparr>"
    by (simp add: Write_record c)
  have d: "fst (snd (snd (Write plain_sha plain_mh keyid_json braces_json fail_exec 63635596800500000000 titled [])))
      = []"
    using c j by (simp add: Write_def fail_exec_def)
  from Write_spawns_regardless_of_insert
         [where sha = plain_sha and mh = plain_mh and jmh = keyid_json and jmm = braces_json
            and m = titled and clock = 63635596800500000000 and exec = fail_exec and db = "[]",
          OF c j t n] c j t r d
  show ?thesis
    by (simp add: fail_exec_def prod_eq_iff)
qed

section \<open>Properties of the dispatch\<close>

lemma HasSuffix_iff: "HasSuffix s suffix \<longleftrightarrow> (\<exists>p. s = p @ suffix)"
proof
  assume "HasSuffix s suffix"
  then have "s = take (length s - length suffix) s @ suffix"
    by (metis HasSuffix_def append_take_drop_id)
  then show "\<exists>p. s = p @ suffix" ..
next
  assume "\<exists>p. s = p @ suffix"
  then show "HasSuffix s suffix"
    by (auto simp: HasSuffix_def)
qed

text \<open>
  Claim C4. For a message that fails to parse as the envelope, \<open>HandleAction\<close> logs the
  failure and sends exactly one response: the one of type \<open>PARSE_ERROR\<close> whose \<open>Error\<close>
  carries the text of the parse failure and whose \<open>RequestId\<close> is empty. Nothing else
  happens: no handler runs (the collaborators are untouched), the connection is not closed,
  and the read loop goes on with the next message. \<open>SendResponse\<close> sends what
  \<open>json.Marshal\<close> makes of the response, here \<open>b\<close>.
\<close>

theorem HandleAction_parse_error:
  assumes "unm data = Inl err"
    and "jm \<lparr>Type = ''PARSE_ERROR'', RequestId = '''',
             Error = ''action parsing error type: '' @ error_Error st err,
             Schema = '''', Data = None, SilentError = False\<rparr> = Inr b"
  shows "HandleAction st unm jm reg data s =
           s\<lparr>trace := trace s @
                [Logged (''error parsing action JSON: '' @ error_Error st err), Sent b]\<rparr>
       \<and> readPump st unm jm reg unexpected close_err (Message data # rest) s =
           readPump st unm jm reg unexpected close_err rest
             (s\<lparr>trace := trace s @
                [Logged (''error parsing action JSON: '' @ error_Error st err), Sent b]\<rparr>)"
  using assms by (simp add: HandleAction_def SendResponse_def emit_def)

text \<open>A truncated message.\<close>

theorem HandleAction_parse_error_witness:
  "truncated_json ''{'' = Inl (Errorf ''unexpected end of JSON input'')
   \<and> HandleAction sentinel_text truncated_json line_json registry ''{'' idle =
       \<lparr>trace = [Logged ''error parsing action JSON: unexpected end of JSON input'',
                 Sent ''PARSE_ERROR||action parsing error type: unexpected end of JSON input''],
        world = 0\<rparr>"
proof -
  have u: "truncated_json ''{'' = Inl (Errorf ''unexpected end of JSON input'')"
    by (simp add: truncated_json_def)
  have j: "line_json \<lparr>Type = ''PARSE_ERROR'', RequestId = '''',
             Error = ''action parsing error type: '' @
                     error_Error sentinel_text (Errorf ''unexpected end of JSON input''),
             Schema = '''', Data = (None :: unit option), SilentError = False\<rparr> =
           Inr ''PARSE_ERROR||action parsing error type: unexpected end of JSON input''"
    by (simp add: line_json_def)
  from HandleAction_parse_error
         [where unm = truncated_json and jm = line_json and st = sentinel_text
            and reg = registry and s = idle, OF u j] u
  show ?thesis by (simp add: idle_def)
qed

text \<open>
  Claim C5. For a message that parses to an envelope whose \<open>Type\<close> does not end in
  \<open>REQUEST\<close>, \<open>HandleAction\<close> only logs a line: nothing is sent and the collaborators
  are untouched, so no handler of the registry has run, whatever the registry holds.
\<close>

theorem HandleAction_not_request:
  assumes "unm data = Inr a"
    and "\<not> (\<exists>p. aType a = p @ ''REQUEST'')"
  shows "HandleAction st unm jm reg data s =
           s\<lparr>trace := trace s @ [Logged (''unrecognized action: '' @ aType a)]\<rparr>"
  using assms by (simp add: HandleAction_def HasSuffix_iff emit_def)

text \<open>
  A type that contains \<open>REQUEST\<close> without ending in it, and that an entry of the
  registry claims.
\<close>

theorem HandleAction_not_request_witness:
  "fixed_json ''REQUEST_DONE'' ''{}'' =
     Inr \<lparr>aType = ''REQUEST_DONE'', aRequestId = ''r1'', aSilentError = True, aData = ''{}''\<rparr>
   \<and> \<not> (\<exists>p. ''REQUEST_DONE'' = p @ ''REQUEST'')
   \<and> HandleAction sentinel_text (fixed_json ''REQUEST_DONE'') line_json registry ''{}'' idle =
       \<lparr>trace = [Logged ''unrecognized action: REQUEST_DONE''], world = 0\<rparr>"
proof -
  have u: "fixed_json ''REQUEST_DONE'' ''{}'' =
     Inr \<lparr>aType = ''REQUEST_DONE'', aRequestId = ''r1'', aSilentError = True, aData = ''{}''\<rparr>"
    by (simp add: fixed_json_def)
  have "\<not> HasSuffix ''REQUEST_DONE'' ''REQUEST''"
    by (simp add: HasSuffix_def)
  then have n: "\<not> (\<exists>p. ''REQUEST_DONE'' = p @ ''REQUEST'')"
    using HasSuffix_iff by blast
  have n': "\<not> (\<exists>p. aType \<lparr>aType = ''REQUEST_DONE'', aRequestId = ''r1'', aSilentError = True,
                             aData = ''{}''\<rparr> = p @ ''REQUEST'')"
    unfolding action.select_convs by (rule n)
  from HandleAction_not_request
         [where unm = "fixed_json ''REQUEST_DONE''" and jm = line_json and st = sentinel_text
            and reg = registry and s = idle, OF u n'] u n
  show ?thesis by (simp add: idle_def)
qed

text \<open>
  Claim C9. \<open>HandleRequestAction\<close> runs through all the entries of the registry whose
  type name is the requested one, in the order of the registry: each parses the payload,
  executes, has the \<open>SilentError\<close> of its response overwritten with the envelope's, and
  its response goes to \<open>SendResponse\<close>; the first match does not end the loop. An
  envelope whose type ends in \<open>REQUEST\<close> is dispatched this way by \<open>HandleAction\<close>.
\<close>

theorem HandleRequestAction_all_matching:
  "HandleRequestAction st jm reg req reqId silentError data s =
     foldl (\<lambda>s t. case tParse t reqId data (world s) of
                     (res, w) \<Rightarrow>
                       SendResponse st jm (res\<lparr>SilentError := silentError\<rparr>) (s\<lparr>world := w\<rparr>))
       s (filter (\<lambda>t. tType t = req) reg)
   \<and> (unm raw = Inr a \<and> HasSuffix (aType a) ''REQUEST'' \<longrightarrow>
        HandleAction st unm jm reg raw s =
          HandleRequestAction st jm reg (aType a) (aRequestId a) (aSilentError a) (aData a)
            (emit (Logged (aRequestId a @ '': '' @ aType a)) s))"
proof -
  have "HandleRequestAction st jm reg req reqId silentError data s =
     foldl (\<lambda>s t. case tParse t reqId data (world s) of
                     (res, w) \<Rightarrow>
                       SendResponse st jm (res\<lparr>SilentError := silentError\<rparr>) (s\<lparr>world := w\<rparr>))
       s (filter (\<lambda>t. tType t = req) reg)"
    by (induction reg arbitrary: s) (simp_all split: prod.splits)
  then show ?thesis
    by (simp add: HandleAction_def)
qed

text \<open>Two entries of the same type name: both run, two responses are sent.\<close>

theorem HandleRequestAction_all_matching_witness:
  "fixed_json ''ECHO_REQUEST'' ''{}'' =
     Inr \<lparr>aType = ''ECHO_REQUEST'', aRequestId = ''r1'', aSilentError = True, aData = ''{}''\<rparr>
   \<and> HasSuffix ''ECHO_REQUEST'' ''REQUEST''
   \<and> HandleAction sentinel_text (fixed_json ''ECHO_REQUEST'') line_json registry ''{}'' idle =
       \<lparr>trace = [Logged ''r1: ECHO_REQUEST'', Sent ''FIRST|r1||silent'', Sent ''SECOND|r1||silent''],
        world = 2\<rparr>"
proof -
  have u: "fixed_json ''ECHO_REQUEST'' ''{}'' =
     Inr \<lparr>aType = ''ECHO_REQUEST'', aRequestId = ''r1'', aSilentError = True, aData = ''{}''\<rparr>"
    by (simp add: fixed_json_def)
  have h: "HasSuffix ''ECHO_REQUEST'' ''REQUEST''"
    by (simp add: HasSuffix_def)
  from HandleRequestAction_all_matching
         [where st = sentinel_text and jm = line_json and reg = registry
            and req = "''ECHO_REQUEST''" and reqId = "''r1''" and silentError = True
            and data = "''{}''" and s = "emit (Logged ''r1: ECHO_REQUEST'') idle"]
       HandleRequestAction_all_matching
         [where st = sentinel_text and jm = line_json and reg = registry
            and unm = "fixed_json ''ECHO_REQUEST''" and raw = "''{}''" and s = idle
            and a = "\<lparr>aType = ''ECHO_REQUEST'', aRequestId = ''r1'', aSilentError = True,
                       aData = ''{}''\<rparr>"]
       u h
  show ?thesis
    by (simp add: registry_def counting_def idle_def emit_def SendResponse_def line_json_def)
qed

section \<open>Properties of the crawl orchestrator\<close>

lemma done_calls_append: "done_calls (xs @ ys) = done_calls xs @ done_calls ys"
  by (induction xs rule: done_calls.induct) simp_all

text \<open>
  Claim C6. When the policy query finds no allow-listed pattern for the URL,
  \<open>Client.ArchiveUrl\<close> ends at the policy check: after the query it logs the failure and
  sends exactly one response, of type \<open>URL_ARCHIVE_ERROR\<close>, with the request id and the
  text of the policy error unchanged. No audit row is inserted, no entity is read, saved or
  fetched, the collaborators are untouched and no goroutine is started.
\<close>

theorem Client_ArchiveUrl_rejected:
  assumes "policy_exists E (world s) url = Inr False"
    and "marshal E
           \<lparr>Type = ''URL_ARCHIVE_ERROR'', RequestId = reqId,
            Error = ''Oops! Only urls contained in subprimers can be archived. cannot archive '' @ url,
            Schema = '''', Data = None, SilentError = False\<rparr> = Inr b"
  shows "Client_ArchiveUrl E reqId url s =
           (s\<lparr>trace := trace s @
                 [Queried url,
                  Logged (''Oops! Only urls contained in subprimers can be archived. cannot archive '' @ url),
                  Sent b]\<rparr>,
            None)"
  using assms
  by (simp add: Client_ArchiveUrl_def ValidArchivingUrl_def archive_failed_def SendResponse_def
      emit_def)

text \<open>A URL outside the allow-list.\<close>

theorem Client_ArchiveUrl_rejected_witness:
  "policy_exists site (world idle) ''http://evil.test/x'' = Inr False
   \<and> Client_ArchiveUrl site ''r1'' ''http://evil.test/x'' idle =
       (\<lparr>trace =
           [Queried ''http://evil.test/x'',
            Logged ''Oops! Only urls contained in subprimers can be archived. cannot archive http://evil.test/x'',
            Sent ''URL_ARCHIVE_ERROR|r1|Oops! Only urls contained in subprimers can be archived. cannot archive http://evil.test/x''],
         world = 0\<rparr>, None)"
proof -
  have p: "policy_exists site (world idle) ''http://evil.test/x'' = Inr False"
    by (simp add: site_def)
  have m: "marshal site
           \<lparr>Type = ''URL_ARCHIVE_ERROR'', RequestId = ''r1'',
            Error = ''Oops! Only urls contained in subprimers can be archived. cannot archive '' @ ''http://evil.test/x'',
            Schema = '''', Data = None, SilentError = False\<rparr> =
        Inr ''URL_ARCHIVE_ERROR|r1|Oops! Only urls contained in subprimers can be archived. cannot archive http://evil.test/x''"
    by (simp add: site_def url_json_def)
  from Client_ArchiveUrl_rejected
         [where E = site and s = idle and url = "''http://evil.test/x''" and reqId = "''r1''",
          OF p m] p
  show ?thesis by (simp add: idle_def)
qed

subsection \<open>The throttled variant\<close>

text \<open>
  One turn of the loop, for a fetch that fails and for a fetch that succeeds, when the
  responses marshal: the sleep comes first, the loading event precedes the fetch, and in both
  cases the loop goes on with the remaining links.
\<close>

lemma crawl_links_fetch_failed:
  assumes "store_Get E (world s) (Dst l) = (ls, Some e, dst, w)"
    and "marshal E
           \<lparr>Type = ''URL_SET_LOADING'', RequestId = ''server'', Error = '''', Schema = '''',
            Data = Some (DataMap [''url'' \<mapsto> JString (uUrl (Dst l)), ''loading'' \<mapsto> JBool True]),
            SilentError = False\<rparr> = Inr b1"
    and "marshal E
           \<lparr>Type = ''URL_SET_ERROR'', RequestId = ''server'', Error = '''', Schema = '''',
            Data = Some (DataMap [''url'' \<mapsto> JString (uUrl dst),
                                  ''error'' \<mapsto> JString (error_Error (errtext E) e)]),
            SilentError = False\<rparr> = Inr b2"
    and "marshal E
           \<lparr>Type = ''URL_SET_SUCCESS'', RequestId = ''server'', Error = '''', Schema = '''',
            Data = Some (DataMap [''url'' \<mapsto> JString (uUrl dst), ''success'' \<mapsto> JBool True]),
            SilentError = False\<rparr> = Inr b3"
  shows "crawl_links E (l # rest) s =
           crawl_links E rest
             (s\<lparr>trace := trace s @
                  [Slept (3 * Second), Sent b1, GotUrl (Dst l),
                   Logged (error_Error (errtext E) e), Sent b2, Sent b3],
                world := w\<rparr>)"
  using assms by (cases s) (simp add: SendResponse_def emit_def Let_def)

lemma crawl_links_fetch_succeeded:
  assumes "store_Get E (world s) (Dst l) = (ls, None, dst, w)"
    and "marshal E
           \<lparr>Type = ''URL_SET_LOADING'', RequestId = ''server'', Error = '''', Schema = '''',
            Data = Some (DataMap [''url'' \<mapsto> JString (uUrl (Dst l)), ''loading'' \<mapsto> JBool True]),
            SilentError = False\<rparr> = Inr b1"
    and "marshal E
           \<lparr>Type = ''URL_SET_SUCCESS'', RequestId = ''server'', Error = '''', Schema = '''',
            Data = Some (DataMap [''url'' \<mapsto> JString (uUrl dst), ''success'' \<mapsto> JBool True]),
            SilentError = False\<rparr> = Inr b3"
  shows "crawl_links E (l # rest) s =
           crawl_links E rest
             (s\<lparr>trace := trace s @ [Slept (3 * Second), Sent b1, GotUrl (Dst l), Sent b3],
                world := w\<rparr>)"
  using assms by (cases s) (simp add: SendResponse_def emit_def Let_def)

text \<open>
  Claim C7 says that each link gets one terminal event after its fetch, a success or an
  error, not both. The goroutine run on one link whose fetch fails: after the sleep, the
  loading event and the fetch, it sends the error event and then the success event as well.
\<close>

theorem crawl_links_error_then_success:
  "trace (crawl_links site [\<lparr>Dst = page ''http://example.com/bad''\<rparr>] idle) =
     [Slept 3000000000,
      Sent ''URL_SET_LOADING|server||http://example.com/bad'',
      GotUrl (page ''http://example.com/bad''),
      Logged ''timeout'',
      Sent ''URL_SET_ERROR|server||http://example.com/bad'',
      Sent ''URL_SET_SUCCESS|server||http://example.com/bad'']"
  by (simp add: site_def url_json_def page_def idle_def SendResponse_def emit_def Second_def
      Let_def)

subsection \<open>The batch variant\<close>

lemma fetch_links_errs:
  "fst (fetch_links E links (errs, s)) = errs @ replicate (length links) None"
proof (induction links arbitrary: errs s)
  case Nil
  show ?case by simp
next
  case (Cons l ls)
  show ?case
    by (simp add: Cons.IH Let_def replicate_app_Cons_same split: prod.splits)
qed

lemma fetch_links_done:
  "done_calls (trace (snd (fetch_links E links (errs, s)))) = done_calls (trace s)"
proof (induction links arbitrary: errs s)
  case Nil
  show ?case by simp
next
  case (Cons l ls)
  show ?case
    by (simp add: Cons.IH Let_def emit_def done_calls_append split: prod.splits option.splits)
qed

lemma aggregate_nils:
  "aggregate n (replicate n None @ rest) s = (rest, emit (DoneCalled None) s)"
  by (induction n) simp_all

lemma resolve_entity_done:
  "resolve_entity E u s = (err, u1, s1) \<Longrightarrow> done_calls (trace s1) = done_calls (trace s)"
  by (auto simp: resolve_entity_def emit_def done_calls_append
      split: prod.splits option.splits if_splits)

lemma ArchiveUrl_started:
  assumes "ArchiveUrl E url s = (r, s1, Some (links, tasks))"
  shows "tasks = length links \<and> done_calls (trace s1) = done_calls (trace s)
         \<and> snd (snd r) = None"
proof -
  let ?u = "\<lparr>uUrl = url, uHash = '''', uTitle = ''''\<rparr>"
  from assms have p: "ParsedUrl E ?u = None"
    by (cases "ParsedUrl E ?u") (simp_all add: ArchiveUrl_def)
  obtain e u1 s0 where re: "resolve_entity E ?u s = (e, u1, s0)"
    by (cases "resolve_entity E ?u s") auto
  from assms p re have e: "e = None"
    by (cases e) (simp_all add: ArchiveUrl_def)
  obtain ls ge u2 w where g: "store_Get E (world s0) u1 = (ls, ge, u2, w)"
    by (cases "store_Get E (world s0) u1") auto
  from assms p re e g have ge: "ge = None"
    by (cases ge) (simp_all add: ArchiveUrl_def)
  from assms p re e g ge have
    "tasks = length links" "s1 = (emit (GotUrl u1) s0)\<lparr>world := w\<rparr>" "snd (snd r) = None"
    by (auto simp: ArchiveUrl_def)
  moreover have "done_calls (trace s0) = done_calls (trace s)"
    using re by (rule resolve_entity_done)
  ultimately show ?thesis
    by (simp add: emit_def done_calls_append)
qed

text \<open>
  Claim C8. Once \<open>ArchiveUrl\<close> has started its goroutines, whatever the fetches of the
  links return: the channel has room for one value for each link; the first goroutine sends
  \<open>nil\<close> for each link; the second receives exactly that many values, leaves the channel
  empty and calls \<open>done(nil)\<close>; and over the whole run \<open>done\<close> is called exactly this
  once.
\<close>

theorem batch_always_done_nil:
  assumes "ArchiveUrl E url s = (r, s1, Some (links, tasks))"
  shows "tasks = length links
       \<and> fst (fetch_links E links ([], s1)) = replicate (length links) None
       \<and> run_goroutines E links tasks s1 =
           ([], emit (DoneCalled None) (snd (fetch_links E links ([], s1))))
       \<and> done_calls (trace (snd (run_goroutines E links tasks s1))) =
           done_calls (trace s) @ [None]"
proof -
  from ArchiveUrl_started [OF assms] have t: "tasks = length links"
    and d: "done_calls (trace s1) = done_calls (trace s)" by simp_all
  have f: "fst (fetch_links E links ([], s1)) = replicate (length links) None"
    using fetch_links_errs [of E links "[]" s1] by simp
  have r: "run_goroutines E links tasks s1 =
           ([], emit (DoneCalled None) (snd (fetch_links E links ([], s1))))"
  proof (cases "fetch_links E links ([], s1)")
    case (Pair errs s2)
    with f have "errs = replicate (length links) None" by simp
    with Pair t aggregate_nils [of "length links" "[]" s2] show ?thesis
      by (simp add: run_goroutines_def)
  qed
  have "done_calls (trace (snd (run_goroutines E links tasks s1))) =
           done_calls (trace s1) @ [None]"
    by (simp add: r emit_def done_calls_append fetch_links_done)
  with t f r d show ?thesis by simp
qed

text \<open>A page with two links, the first of which fails to load.\<close>

theorem batch_always_done_nil_witness:
  "ArchiveUrl site ''http://example.com/x'' idle =
     ((Some (page ''http://example.com/x''),
       [\<lparr>Dst = page ''http://example.com/bad''\<rparr>, \<lparr>Dst = page ''http://example.com/good''\<rparr>],
       None),
      \<lparr>trace = [ReadUrl (page ''http://example.com/x''), SavedUrl (page ''http://example.com/x''),
                GotUrl (page ''http://example.com/x'')],
       world = 2\<rparr>,
      Some ([\<lparr>Dst = page ''http://example.com/bad''\<rparr>, \<lparr>Dst = page ''http://example.com/good''\<rparr>],
            2))
   \<and> run_goroutines site
        [\<lparr>Dst = page ''http://example.com/bad''\<rparr>, \<lparr>Dst = page ''http://example.com/good''\<rparr>] 2
        \<lparr>trace = [ReadUrl (page ''http://example.com/x''), SavedUrl (page ''http://example.com/x''),
                  GotUrl (page ''http://example.com/x'')],
         world = 2\<rparr> =
     ([],
      \<lparr>trace = [ReadUrl (page ''http://example.com/x''), SavedUrl (page ''http://example.com/x''),
                GotUrl (page ''http://example.com/x''),
                GotUrl (page ''http://example.com/bad''), Logged ''timeout'', Slept 3000000000,
                GotUrl (page ''http://example.com/good''), Slept 3000000000,
                DoneCalled None],
       world = 3\<rparr>)"
proof -
  have a: "ArchiveUrl site ''http://example.com/x'' idle =
     ((Some (page ''http://example.com/x''),
       [\<lparr>Dst = page ''http://example.com/bad''\<rparr>, \<lparr>Dst = page ''http://example.com/good''\<rparr>],
       None),
      \<lparr>trace = [ReadUrl (page ''http://example.com/x''), SavedUrl (page ''http://example.com/x''),
                GotUrl (page ''http://example.com/x'')],
       world = 2\<rparr>,
      Some ([\<lparr>Dst = page ''http://example.com/bad''\<rparr>, \<lparr>Dst = page ''http://example.com/good''\<rparr>],
            2))"
    by (simp add: ArchiveUrl_def resolve_entity_def site_def page_def idle_def emit_def Let_def)
  have f: "snd (fetch_links site
        [\<lparr>Dst = page ''http://example.com/bad''\<rparr>, \<lparr>Dst = page ''http://example.com/good''\<rparr>]
        ([], \<lparr>trace = [ReadUrl (page ''http://example.com/x''), SavedUrl (page ''http://example.com/x''),
                  GotUrl (page ''http://example.com/x'')],
         world = 2\<rparr>)) =
      \<lparr>trace = [ReadUrl (page ''http://example.com/x''), SavedUrl (page ''http://example.com/x''),
                GotUrl (page ''http://example.com/x''),
                GotUrl (page ''http://example.com/bad''), Logged ''timeout'', Slept 3000000000,
                GotUrl (page ''http://example.com/good''), Slept 3000000000],
       world = 3\<rparr>"
    by (simp add: site_def page_def emit_def Let_def Second_def)
  from batch_always_done_nil [OF a] a f
  show ?thesis by (simp add: emit_def)
qed

end

